theory Spec2Isabelle
  imports Main "HOL-Library.Sublist"
begin

section \<open>Python strings\<close>

text \<open>
  A Python \<open>str\<close> is a sequence of Unicode code points: \<open>len\<close>, slicing, \<open>startswith\<close>
  and \<open>in\<close> all work on code points.  The model keeps that view: a string is a list of
  code points, and \<open>U\<close> turns an ASCII literal into one.
\<close>

type_synonym pystr = "nat list"

definition U :: "string \<Rightarrow> pystr" where
  "U s = map of_char s"

text \<open>\<open>s.startswith(p)\<close> and \<open>sub in s\<close>.\<close>

definition startswith :: "pystr \<Rightarrow> pystr \<Rightarrow> bool" where
  "startswith s p = prefix p s"

fun str_in :: "pystr \<Rightarrow> pystr \<Rightarrow> bool" where
  "str_in sub [] = (sub = [])"
| "str_in sub (c # cs) = (prefix sub (c # cs) \<or> str_in sub cs)"

text \<open>
  \<open>s[:k]\<close>: for \<open>k \<ge> 0\<close> the first \<open>k\<close> code points, for \<open>k < 0\<close> all but the last
  \<open>-k\<close> (nothing when the string is shorter).
\<close>

definition slice_to :: "int \<Rightarrow> pystr \<Rightarrow> pystr" where
  "slice_to k s = (if 0 \<le> k then take (nat k) s else take (nat (int (length s) + k)) s)"

text \<open>\<open>s.strip(chars)\<close> removes the code points of \<open>chars\<close> from both ends.\<close>

definition strip :: "pystr \<Rightarrow> pystr \<Rightarrow> pystr" where
  "strip chars s =
     rev (dropWhile (\<lambda>c. c \<in> set chars) (rev (dropWhile (\<lambda>c. c \<in> set chars) s)))"


section \<open>File names: \<open>FilenameProcessor.sanitize\<close>\<close>

text \<open>
  Both \<open>page_capturer.py\<close> and \<open>downloader_pdf.py\<close> declare a class
  \<open>FilenameProcessor\<close> with the same character class

  \<^verbatim>\<open>ILLEGAL_CHARS = re.compile(r'[<>:"/\\|?*\x00-\x1f]')\<close>

  and a class method \<open>sanitize\<close>; the two methods differ.
\<close>

definition ILLEGAL_CHARS :: "nat \<Rightarrow> bool" where
  "ILLEGAL_CHARS c \<longleftrightarrow>
     c \<in> {0x3C, 0x3E, 0x3A, 0x22, 0x2F, 0x5C, 0x7C, 0x3F, 0x2A} \<or> c \<le> 0x1F"

text \<open>\<open>ILLEGAL_CHARS.sub('_', filename)\<close>: every illegal code point becomes an underscore.\<close>

definition sub_illegal :: "pystr \<Rightarrow> pystr" where
  "sub_illegal s = map (\<lambda>c. if ILLEGAL_CHARS c then 0x5F else c) s"




text \<open>
  \<open>downloader_pdf.py\<close>; \<open>unquote\<close> is \<open>urllib.parse.unquote\<close>, a parameter of the model:
  \<^verbatim>\<open>
    filename = unquote(filename)
    filename = cls.ILLEGAL_CHARS.sub('_', filename)
    filename = filename.strip(' .')
    if len(filename) > max_length:
        name, ext = filename.rsplit('.', 1) if '.' in filename else (filename, '')
        filename = name[:max_length - len(ext) - 1] + '.' + ext if ext else name[:max_length]
    return filename or "unnamed.pdf"
  \<close>
  \<open>rsplit_dot\<close> is \<open>filename.rsplit('.', 1)\<close> for a string that contains a dot.
\<close>

definition rsplit_dot :: "pystr \<Rightarrow> pystr \<times> pystr" where
  "rsplit_dot s =
     (let ext = rev (takeWhile (\<lambda>c. c \<noteq> 0x2E) (rev s))
      in (take (length s - length ext - 1) s, ext))"

definition downloader_cleaned :: "(pystr \<Rightarrow> pystr) \<Rightarrow> pystr \<Rightarrow> pystr" where
  "downloader_cleaned unquote filename = strip (U '' .'') (sub_illegal (unquote filename))"

definition downloader_sanitize :: "(pystr \<Rightarrow> pystr) \<Rightarrow> pystr \<Rightarrow> int \<Rightarrow> pystr" where
  "downloader_sanitize unquote filename max_length =
     (let f = downloader_cleaned unquote filename;
          f = (if int (length f) > max_length
               then (let (name, ext) = (if 0x2E \<in> set f then rsplit_dot f else (f, []))
                     in if ext \<noteq> []
                        then slice_to (max_length - int (length ext) - 1) name @ [0x2E] @ ext
                        else slice_to max_length name)
               else f)
      in if f = [] then U ''unnamed.pdf'' else f)"

section \<open>The level chain: \<open>ConfigValidator.validate_and_extract\<close>\<close>

text \<open>
  The runner of \<open>verify_config.py\<close> calls into libraries that are not part of the
  repository.  They are parameters of the model, collected in one record:
  \<^item> \<open>arun n url\<close>: what \<open>crawler.arun(url=url, bypass_cache=True)\<close> does when it is the
    call number \<open>n\<close> of the run (a page can change between two fetches);
  \<^item> \<open>urljoin\<close>: \<open>urllib.parse.urljoin\<close>;
  \<^item> \<open>findall pattern html\<close>: \<open>re.findall(pattern, html, re.IGNORECASE)\<close>, for a pattern
    with at most one group, so that every match is a string;
  \<^item> \<open>re_match pattern s\<close>: whether \<open>re.match(pattern, s)\<close> finds a match;
  \<^item> \<open>list_of_set xs\<close>: \<open>list(set(xs))\<close>, whose order Python leaves open.

  \<open>crawler_service.py\<close> uses three more:
  \<^item> \<open>re_search pattern s\<close>: whether \<open>re.compile(pattern).search(s)\<close> finds a match;
  \<^item> \<open>href_links html\<close>: \<open>findall\<close> of the pattern \<^verbatim>\<open>href=["\']([^"\']+)["\']\<close>,
    compiled with \<open>re.IGNORECASE\<close>;
  \<^item> \<open>dois html\<close>: \<open>findall\<close> of the pattern \<^verbatim>\<open>10\.\d{4,}/\d+\.\d+\<close>.
\<close>

datatype arun_result =
    Crawl_success pystr  \<comment> \<open>\<open>result.success\<close>, with \<open>result.html\<close>\<close>
  | Crawl_failed         \<comment> \<open>\<open>result.success\<close> is false\<close>
  | Crawl_raised         \<comment> \<open>the call raised\<close>

record web =
  arun :: "nat \<Rightarrow> pystr \<Rightarrow> arun_result"
  urljoin :: "pystr \<Rightarrow> pystr \<Rightarrow> pystr"
  findall :: "pystr \<Rightarrow> pystr \<Rightarrow> pystr list"
  re_match :: "pystr \<Rightarrow> pystr \<Rightarrow> bool"
  list_of_set :: "pystr list \<Rightarrow> pystr list"
  re_search :: "pystr \<Rightarrow> pystr \<Rightarrow> bool"
  href_links :: "pystr \<Rightarrow> pystr list"
  dois :: "pystr \<Rightarrow> pystr list"

text \<open>One entry of \<open>target.levels\<close>, after the defaults of \<open>level_config.get\<close>.\<close>

record level_config =
  level :: int
  level_name :: pystr
  extract_pattern :: pystr
  filter_pattern :: pystr
  url_pattern :: pystr
  description :: pystr

text \<open>One dictionary appended to \<open>level_results\<close>.\<close>

record found =
  found_level :: int
  found_level_name :: pystr
  url :: pystr
  source_url :: pystr
  found_extract_pattern :: pystr
  found_filter_pattern :: pystr
  matched_text :: pystr

text \<open>
  Lines 104 to 110:
  \<^verbatim>\<open>
    if link.startswith('http'):
        full_url = link
    elif link.startswith('/'):
        full_url = urljoin(base_url, link)
    else:
        full_url = urljoin(source_url, link)
  \<close>
\<close>

definition full_url :: "web \<Rightarrow> pystr \<Rightarrow> pystr \<Rightarrow> pystr \<Rightarrow> pystr" where
  "full_url w base_url src link =
     (if startswith link (U ''http'') then link
      else if startswith link (U ''/'') then urljoin w base_url link
      else urljoin w src link)"

definition found_item :: "web \<Rightarrow> level_config \<Rightarrow> pystr \<Rightarrow> pystr \<Rightarrow> pystr \<Rightarrow> found" where
  "found_item w lc base_url src link =
     \<lparr>found_level = level lc, found_level_name = level_name lc,
      url = full_url w base_url src link, source_url = src,
      found_extract_pattern = extract_pattern lc, found_filter_pattern = filter_pattern lc,
      matched_text = link\<rparr>"

text \<open>The lists and counters that one level accumulates.\<close>

record level_acc =
  level_results :: "found list"
  next_urls :: "pystr list"
  extracted_count :: nat
  filtered_count :: nat

text \<open>
  The loop \<open>for link in raw_links\<close> (lines 103 to 145).  An empty \<open>filter_pattern\<close> is
  falsy, which is how an absent filter reads.
\<close>

fun filter_links ::
  "web \<Rightarrow> level_config \<Rightarrow> pystr \<Rightarrow> pystr \<Rightarrow> pystr list \<Rightarrow> level_acc \<Rightarrow> level_acc" where
  "filter_links w lc base_url src [] acc = acc"
| "filter_links w lc base_url src (link # links) acc =
     (let full = full_url w base_url src link;
          keep = acc\<lparr>filtered_count := filtered_count acc + 1,
                     level_results := level_results acc @ [found_item w lc base_url src link],
                     next_urls := next_urls acc @ [full]\<rparr>
      in if filter_pattern lc \<noteq> []
         then (if re_match w (filter_pattern lc) full \<or> re_match w (filter_pattern lc) link
               then filter_links w lc base_url src links keep
               else filter_links w lc base_url src links acc)
         else filter_links w lc base_url src links keep)"

text \<open>
  The body of \<open>for idx, source_url in enumerate(current_urls, 1)\<close>.  The second
  component is the trace of the run: every call of \<open>crawler.arun\<close> so far, with the level
  that made it.  A failed fetch and a raised exception both leave the accumulators as
  they are.
\<close>

type_synonym fetch_log = "(int \<times> pystr) list"

definition process_url ::
  "web \<Rightarrow> level_config \<Rightarrow> pystr \<Rightarrow> pystr \<Rightarrow> level_acc \<times> fetch_log \<Rightarrow> level_acc \<times> fetch_log" where
  "process_url w lc base_url src st =
     (case st of (acc, log) \<Rightarrow>
        (let log' = log @ [(level lc, src)] in
         case arun w (length log) src of
           Crawl_success html \<Rightarrow>
             (if extract_pattern lc \<noteq> []
              then (let raw_links = findall w (extract_pattern lc) html;
                        acc = acc\<lparr>extracted_count := extracted_count acc + length raw_links\<rparr>;
                        raw_links = list_of_set w raw_links
                    in (filter_links w lc base_url src raw_links acc, log'))
              else (acc, log'))
         | Crawl_failed \<Rightarrow> (acc, log')
         | Crawl_raised \<Rightarrow> (acc, log')))"

fun process_urls ::
  "web \<Rightarrow> level_config \<Rightarrow> pystr \<Rightarrow> pystr list \<Rightarrow> level_acc \<times> fetch_log \<Rightarrow> level_acc \<times> fetch_log" where
  "process_urls w lc base_url [] st = st"
| "process_urls w lc base_url (src # srcs) st =
     process_urls w lc base_url srcs (process_url w lc base_url src st)"

text \<open>Lines 161 to 167: keep the first record of every URL.\<close>

fun deduplicate :: "pystr set \<Rightarrow> found list \<Rightarrow> found list" where
  "deduplicate seen_urls [] = []"
| "deduplicate seen_urls (item # items) =
     (if url item \<notin> seen_urls
      then item # deduplicate (insert (url item) seen_urls) items
      else deduplicate seen_urls items)"

text \<open>
  The state of a run: the trace of fetches, \<open>all_results\<close>, and the JSONL file written
  for each level (\<open>_save_jsonl\<close> opens it with mode \<open>w\<close>).
\<close>

record run_state =
  fetched :: fetch_log
  all_results :: "int \<rightharpoonup> found list"
  jsonl :: "int \<rightharpoonup> found list"

text \<open>One iteration of \<open>for level_config in levels\<close>, up to \<open>current_urls = next_urls\<close>.\<close>

definition process_level ::
  "web \<Rightarrow> pystr \<Rightarrow> level_config \<Rightarrow> pystr list \<Rightarrow> run_state \<Rightarrow> pystr list \<times> run_state" where
  "process_level w base_url lc current_urls st =
     (let start = \<lparr>level_results = [], next_urls = [], extracted_count = 0, filtered_count = 0\<rparr>;
          (acc, log) = process_urls w lc base_url current_urls (start, fetched st);
          results = deduplicate {} (level_results acc);
          nexts = list_of_set w (next_urls acc)
      in (nexts,
          st\<lparr>fetched := log,
             all_results := (all_results st)(level lc \<mapsto> results),
             jsonl := (jsonl st)(level lc \<mapsto> results)\<rparr>))"

text \<open>
  The loop over the levels, with its exit (lines 190 to 196):
  \<^verbatim>\<open>
    current_urls = next_urls
    if not current_urls:
        break
  \<close>
\<close>

fun run_levels ::
  "web \<Rightarrow> pystr \<Rightarrow> level_config list \<Rightarrow> pystr list \<Rightarrow> run_state \<Rightarrow> pystr list \<times> run_state" where
  "run_levels w base_url [] current_urls st = (current_urls, st)"
| "run_levels w base_url (lc # levels) current_urls st =
     (case process_level w base_url lc current_urls st of
        (nexts, st') \<Rightarrow>
          if nexts = [] then (nexts, st') else run_levels w base_url levels nexts st')"

text \<open>\<open>validate_and_extract\<close>: nothing happens without levels; the chain starts at \<open>base_url\<close>.\<close>

definition validate_and_extract :: "web \<Rightarrow> pystr \<Rightarrow> level_config list \<Rightarrow> run_state" where
  "validate_and_extract w base_url levels =
     (let st = \<lparr>fetched = [], all_results = Map.empty, jsonl = Map.empty\<rparr>
      in if levels = [] then st else snd (run_levels w base_url levels [base_url] st))"

text \<open>
  The two other places that make links absolute.  \<open>download_pdf.py\<close>, lines 121 to 125:
  \<^verbatim>\<open>
    if link.startswith('http://') or link.startswith('https://'):
        absolute_pdf_links.append(link)
    else:
        absolute_pdf_links.append(urljoin(url, link))
  \<close>
  and \<open>URLProcessor.filter_urls\<close> in \<open>crawler_service.py\<close>, which calls
  \<open>urljoin(self.base_url, url)\<close> on every link.
\<close>

definition absolute_pdf_link :: "web \<Rightarrow> pystr \<Rightarrow> pystr \<Rightarrow> pystr" where
  "absolute_pdf_link w page_url link =
     (if startswith link (U ''http://'') \<or> startswith link (U ''https://'') then link
      else urljoin w page_url link)"

section \<open>The single-page crawl: \<open>crawler_service.py\<close>\<close>

subsection \<open>\<open>URLProcessor\<close>\<close>





subsection \<open>\<open>JSONLStorage\<close>\<close>







subsection \<open>\<open>CrawlerService.crawl\<close>\<close>

text \<open>
  What \<open>crawler.arun(url=target_url, config=crawler_config)\<close> gives: a timeout, another
  exception, or a result.  \<open>page_links\<close> holds the \<open>href\<close> members of
  \<open>result.links['internal']\<close> and \<open>result.links['external']\<close>, or \<open>None\<close> when
  \<open>result.links\<close> is falsy.
\<close>

record crawl_result =
  success :: bool
  error_message :: pystr
  title :: pystr
  html :: pystr
  page_links :: "(pystr list \<times> pystr list) option"






section \<open>The challenge gate: \<open>_handle_cloudflare\<close>\<close>

text \<open>
  The gate reads the page (\<open>page.title()\<close>, \<open>page.content()\<close>) once per round, so the
  page is a function from the round to the title and the content seen then.  After the
  rounds it prints a prompt and awaits \<open>input\<close> in an executor: the operator at the
  terminal either presses Enter, and \<open>input\<close> returns, or never does, and the coroutine
  stays suspended.  The result says which; the trace lists what the gate did.
\<close>

type_synonym page_view = "nat \<Rightarrow> pystr \<times> pystr"

datatype operator = Presses_enter | Never_answers

datatype gate_result =
    Returned bool  \<comment> \<open>the method returned this value\<close>
  | Blocked        \<comment> \<open>the method never returns\<close>

datatype gate_event =
    Inspect nat         \<comment> \<open>title and content read in this round\<close>
  | Sleep nat           \<comment> \<open>\<open>asyncio.sleep\<close>, in seconds\<close>
  | Auto_clearance nat  \<comment> \<open>the clicks of this round, exceptions swallowed\<close>
  | Prompt              \<comment> \<open>the request to finish the verification by hand\<close>

text \<open>The markers; the Chinese ones are written as code points.\<close>

definition qing_shao_hou :: pystr where
  "qing_shao_hou = [0x8BF7, 0x7A0D, 0x5019]"

definition queren_nin_shi_zhenren :: pystr where
  "queren_nin_shi_zhenren = [0x786E, 0x8BA4, 0x60A8, 0x662F, 0x771F, 0x4EBA]"

definition zhengzai_yanzheng :: pystr where
  "zhengzai_yanzheng = [0x6B63, 0x5728, 0x9A8C, 0x8BC1]"

text \<open>
  \<open>page_capturer.py\<close>, lines 269 to 274:
  \<^verbatim>\<open>
    is_cloudflare = (
        "..." in title or "Just a moment" in title or
        "Cloudflare" in content or "Verify you are human" in content)
  \<close>
\<close>

definition capturer_is_cloudflare :: "pystr \<Rightarrow> pystr \<Rightarrow> bool" where
  "capturer_is_cloudflare page_title content \<longleftrightarrow>
     str_in qing_shao_hou page_title \<or> str_in (U ''Just a moment'') page_title \<or>
     str_in (U ''Cloudflare'') content \<or> str_in (U ''Verify you are human'') content"

text \<open>\<open>downloader_pdf.py\<close>, lines 371 to 377, has one marker more.\<close>

definition downloader_is_cloudflare :: "pystr \<Rightarrow> pystr \<Rightarrow> bool" where
  "downloader_is_cloudflare page_title content \<longleftrightarrow>
     str_in qing_shao_hou page_title \<or> str_in (U ''Just a moment'') page_title \<or>
     str_in (U ''Cloudflare'') content \<or> str_in queren_nin_shi_zhenren content \<or>
     str_in (U ''Verify you are human'') content"

text \<open>The end of both methods: the prompt, \<open>input\<close>, \<open>return True\<close>.\<close>

definition manual_verification ::
  "operator \<Rightarrow> gate_event list \<Rightarrow> gate_result \<times> gate_event list" where
  "manual_verification operator trace =
     (case operator of
        Presses_enter \<Rightarrow> (Returned True, trace @ [Prompt])
      | Never_answers \<Rightarrow> (Blocked, trace @ [Prompt]))"

text \<open>
  \<open>PageCapturerService._handle_cloudflare\<close> (lines 263 to 289):
  \<open>for attempt in range(3)\<close>, return \<open>True\<close> when no marker is seen, else sleep five
  seconds.
\<close>

fun capturer_rounds ::
  "page_view \<Rightarrow> operator \<Rightarrow> nat list \<Rightarrow> gate_event list \<Rightarrow> gate_result \<times> gate_event list" where
  "capturer_rounds page operator [] trace = manual_verification operator trace"
| "capturer_rounds page operator (attempt # attempts) trace =
     (case page attempt of (page_title, content) \<Rightarrow>
        if \<not> capturer_is_cloudflare page_title content
        then (Returned True, trace @ [Inspect attempt])
        else capturer_rounds page operator attempts (trace @ [Inspect attempt, Sleep 5]))"

definition capturer_handle_cloudflare ::
  "page_view \<Rightarrow> operator \<Rightarrow> gate_result \<times> gate_event list" where
  "capturer_handle_cloudflare page operator = capturer_rounds page operator [0..<3] []"

text \<open>
  \<open>PDFDownloaderService._handle_cloudflare\<close> (lines 354 to 482):
  \<open>for attempt in range(max_attempts)\<close>; a round that sees a marker tries the clicks
  inside \<open>try\<close> blocks that swallow every exception, then sleeps two seconds.
\<close>

fun downloader_rounds ::
  "page_view \<Rightarrow> operator \<Rightarrow> nat list \<Rightarrow> gate_event list \<Rightarrow> gate_result \<times> gate_event list" where
  "downloader_rounds page operator [] trace = manual_verification operator trace"
| "downloader_rounds page operator (attempt # attempts) trace =
     (case page attempt of (page_title, content) \<Rightarrow>
        if \<not> downloader_is_cloudflare page_title content
        then (Returned True, trace @ [Inspect attempt])
        else downloader_rounds page operator attempts
               (trace @ [Inspect attempt, Auto_clearance attempt, Sleep 2]))"

definition downloader_handle_cloudflare ::
  "page_view \<Rightarrow> operator \<Rightarrow> int \<Rightarrow> gate_result \<times> gate_event list" where
  "downloader_handle_cloudflare page operator max_attempts =
     downloader_rounds page operator [0..<nat max_attempts] []"

text \<open>
  The script that \<open>CrawlerService._build_js_code\<close> sends to the page waits, a second at
  a time and thirty at most, while the page looks like a verification page:
  \<^verbatim>\<open>
    while (waitCount < maxWait) {
        if (title.includes('...') || title.includes('Just a moment') ||
            title.includes('Checking') || title.includes('Verify') ||
            bodyText.includes('Checking if the site connection is secure') ||
            bodyText.includes('...')) {
            await sleep(1000); waitCount++;
        } else { break; }
    }
  \<close>
  \<open>js_wait\<close> gives the final \<open>waitCount\<close>.
\<close>

definition js_verifying :: "pystr \<Rightarrow> pystr \<Rightarrow> bool" where
  "js_verifying page_title bodyText \<longleftrightarrow>
     str_in qing_shao_hou page_title \<or> str_in (U ''Just a moment'') page_title \<or>
     str_in (U ''Checking'') page_title \<or> str_in (U ''Verify'') page_title \<or>
     str_in (U ''Checking if the site connection is secure'') bodyText \<or>
     str_in zhengzai_yanzheng bodyText"

function js_wait :: "page_view \<Rightarrow> nat \<Rightarrow> nat" where
  "js_wait page waitCount =
     (if waitCount < 30
      then (case page waitCount of (page_title, bodyText) \<Rightarrow>
              if js_verifying page_title bodyText then js_wait page (Suc waitCount)
              else waitCount)
      else waitCount)"
  by pat_completeness auto
termination
  by (relation "measure (\<lambda>(page, waitCount). 30 - waitCount)") auto

section \<open>The page capturer: \<open>PageCapturerService\<close>\<close>

text \<open>
  One pass through the \<open>try\<close> block of \<open>capture_page\<close> ends in one of these ways:
  an \<open>asyncio.TimeoutError\<close> or another exception before the title is read, no response,
  a response that is not \<open>ok\<close>, or a loaded page with its title.  After the title the
  screenshots and the HTML are saved, which succeeds (with the paths) or raises after
  the screenshot paths stored so far.
\<close>

datatype after_load =
    Saved "pystr list" pystr
  | Late_timeout "pystr list"
  | Late_exception "pystr list" pystr

datatype attempt =
    Goto_timeout
  | Goto_exception pystr
  | No_response
  | Http_error nat
  | Loaded pystr after_load

text \<open>
  The browser and its operator: \<open>page_goto n url\<close> is the outcome of the call number \<open>n\<close>
  of \<open>page.goto\<close> (with what follows it in the \<open>try\<close> block), \<open>page_view\<close> is what the
  gate reads.
\<close>

record browser =
  page_goto :: "nat \<Rightarrow> pystr \<Rightarrow> attempt"
  page_view :: page_view
  operator :: operator

datatype capture_status = Pending | Success | Failed

text \<open>The dictionary \<open>result\<close> of \<open>capture_page\<close>, without its time stamp.\<close>

record capture =
  capture_url :: pystr
  source_title :: pystr
  status :: capture_status
  screenshot_path :: "pystr list"
  html_path :: pystr
  page_title :: pystr
  error :: pystr
  browser_crashed :: bool

text \<open>
  The service: \<open>self.results\<close>, the two counters, the file written by \<open>save_results\<close>
  (mode \<open>w\<close>), and the trace of the URLs given to \<open>page.goto\<close>.
\<close>

record capturer =
  results :: "capture list"
  success_count :: nat
  failed_count :: nat
  output_file :: "capture list"
  navigations :: "pystr list"

text \<open>\<open>str(n)\<close> for a status code, and the fixed messages.\<close>

fun py_str :: "nat \<Rightarrow> pystr" where
  "py_str n = (if n < 10 then [0x30 + n] else py_str (n div 10) @ [0x30 + n mod 10])"

declare py_str.simps [simp del]

definition no_response_message :: pystr where
  "no_response_message = [0x65E0, 0x54CD, 0x5E94]"

definition timeout_message :: pystr where
  "timeout_message = [0x9875, 0x9762, 0x52A0, 0x8F7D, 0x8D85, 0x65F6]"

text \<open>
  \<open>"closed" in error_msg.lower() or "crash" in error_msg.lower()\<close>.  No code point
  outside ASCII lowers to a letter of the two words, so lowering the ASCII capitals
  is enough.
\<close>

definition ascii_lower :: "pystr \<Rightarrow> pystr" where
  "ascii_lower s = map (\<lambda>c. if 0x41 \<le> c \<and> c \<le> 0x5A then c + 0x20 else c) s"

definition crash_message :: "pystr \<Rightarrow> bool" where
  "crash_message error_msg \<longleftrightarrow>
     str_in (U ''closed'') (ascii_lower error_msg) \<or> str_in (U ''crash'') (ascii_lower error_msg)"

text \<open>
  The loop \<open>for retry in range(self.config.max_retries + 1)\<close> of \<open>capture_page\<close>
  (lines 347 to 513).  A response that is missing or not \<open>ok\<close> stores the error and
  \<open>continue\<close>s; a timeout stores the error and falls to the end of the body; another
  exception does the same unless its message tells of a crashed browser, in which case
  the result is returned at once with \<open>browser_crashed\<close>.  The waits
  (\<open>asyncio.sleep\<close>) are not part of the state.
\<close>

fun capture_attempts ::
  "browser \<Rightarrow> nat list \<Rightarrow> capture \<Rightarrow> capturer \<Rightarrow> capture \<times> capturer" where
  "capture_attempts b [] result sv =
     (result\<lparr>status := Failed\<rparr>, sv\<lparr>failed_count := failed_count sv + 1\<rparr>)"
| "capture_attempts b (retry # retries) result sv =
     (let sv' = sv\<lparr>navigations := navigations sv @ [capture_url result]\<rparr>
      in case page_goto b (length (navigations sv)) (capture_url result) of
           No_response \<Rightarrow>
             capture_attempts b retries (result\<lparr>error := no_response_message\<rparr>) sv'
         | Http_error code \<Rightarrow>
             capture_attempts b retries (result\<lparr>error := U ''HTTP '' @ py_str code\<rparr>) sv'
         | Loaded t (Saved shots path) \<Rightarrow>
             (result\<lparr>page_title := t, screenshot_path := shots, html_path := path,
                     status := Success\<rparr>,
              sv'\<lparr>success_count := success_count sv' + 1\<rparr>)
         | Loaded t (Late_timeout shots) \<Rightarrow>
             capture_attempts b retries
               (result\<lparr>page_title := t, screenshot_path := shots, error := timeout_message\<rparr>) sv'
         | Loaded t (Late_exception shots error_msg) \<Rightarrow>
             (let result = result\<lparr>page_title := t, screenshot_path := shots, error := error_msg\<rparr>
              in if crash_message error_msg then (result\<lparr>browser_crashed := True\<rparr>, sv')
                 else capture_attempts b retries result sv')
         | Goto_timeout \<Rightarrow>
             capture_attempts b retries (result\<lparr>error := timeout_message\<rparr>) sv'
         | Goto_exception error_msg \<Rightarrow>
             (let result = result\<lparr>error := error_msg\<rparr>
              in if crash_message error_msg then (result\<lparr>browser_crashed := True\<rparr>, sv')
                 else capture_attempts b retries result sv'))"

text \<open>An input record: the URL field and \<open>page_title\<close>.\<close>

type_synonym input_record = "pystr \<times> pystr"

definition capture_page ::
  "browser \<Rightarrow> int \<Rightarrow> input_record \<Rightarrow> capturer \<Rightarrow> capture \<times> capturer" where
  "capture_page b max_retries record sv =
     capture_attempts b [0..<nat (max_retries + 1)]
       \<lparr>capture_url = fst record, source_title = snd record, status = Pending,
        screenshot_path = [], html_path = [], page_title = [], error = [],
        browser_crashed = False\<rparr>
       sv"

definition capturer_save_results :: "capturer \<Rightarrow> capturer" where
  "capturer_save_results sv = sv\<lparr>output_file := results sv\<rparr>"

text \<open>
  The loop \<open>while i < total\<close> of \<open>run\<close> (lines 567 to 605).  A result with
  \<open>browser_crashed\<close> is not appended: the browser is started again and the same record
  is processed again, so the loop need not end.  Every iteration takes one unit of
  \<open>fuel\<close>, and \<open>None\<close> says that the fuel did not suffice.
\<close>

fun run_loop ::
  "nat \<Rightarrow> browser \<Rightarrow> int \<Rightarrow> input_record list \<Rightarrow> nat \<Rightarrow> capturer \<Rightarrow> capturer option" where
  "run_loop 0 b max_retries records i sv = None"
| "run_loop (Suc fuel) b max_retries records i sv =
     (if i < length records
      then (case capture_page b max_retries (records ! i) sv of
              (result, sv) \<Rightarrow>
                if browser_crashed result then run_loop fuel b max_retries records i sv
                else (let sv = sv\<lparr>results := results sv @ [result]\<rparr>;
                          sv = (if (i + 1) mod 20 = 0 then capturer_save_results sv else sv)
                      in run_loop fuel b max_retries records (i + 1) sv))
      else Some sv)"

text \<open>
  \<open>run\<close> (lines 534 to 619) for the records that \<open>load_input_urls\<close> returned: without
  records nothing is done; otherwise the first URL is opened and the gate is passed
  (an exception of \<open>page.goto\<close> skips the gate), the loop runs, and the results are
  saved.  A gate that stays blocked keeps \<open>run\<close> from returning.
\<close>

definition raises :: "attempt \<Rightarrow> bool" where
  "raises a \<longleftrightarrow> (case a of Goto_timeout \<Rightarrow> True | Goto_exception m \<Rightarrow> True | _ \<Rightarrow> False)"

definition run ::
  "nat \<Rightarrow> browser \<Rightarrow> int \<Rightarrow> input_record list \<Rightarrow> capturer \<Rightarrow> capturer option" where
  "run fuel b max_retries records sv =
     (if records = [] then Some sv
      else (let init_url = fst (records ! 0);
                opened = page_goto b (length (navigations sv)) init_url;
                sv = sv\<lparr>navigations := navigations sv @ [init_url]\<rparr>;
                blocked = (\<not> raises opened \<and>
                           fst (capturer_handle_cloudflare (page_view b) (operator b)) = Blocked)
            in if blocked then None
               else map_option capturer_save_results
                      (run_loop fuel b max_retries records 0 sv)))"


section \<open>The PDF downloader: \<open>PDFDownloaderService.download_pdf_with_browser\<close>\<close>

text \<open>
  What \<open>page.goto(pdf_url, wait_until="load", ...)\<close> and the reading of the response
  give: an exception, no response, a response that is not \<open>ok\<close> with its status, or
  an \<open>ok\<close> response with its content type and body.
\<close>

datatype pdf_response =
    Pdf_exception pystr
  | Pdf_no_response
  | Pdf_http_error nat
  | Pdf_ok pystr "nat list"

text \<open>
  The surroundings of the downloader: \<open>pdf_goto n url\<close> is the outcome of the call number
  \<open>n\<close> of \<open>page.goto\<close>; \<open>doi_name\<close> is group 1 of
  \<open>re.search(r'10\.\d+/(\d+\.\d+)', pdf_url)\<close>; \<open>title_year\<close> is group 1 of the search for
  a year in the source title; \<open>url_path\<close> is \<open>urlparse(url).path\<close> and \<open>pdf_unquote\<close> is
  \<open>unquote\<close>; \<open>path_exists\<close> and \<open>mkdir_fails\<close> stand for the file system.
\<close>

record downloads =
  pdf_goto :: "nat \<Rightarrow> pystr \<Rightarrow> pdf_response"
  doi_name :: "pystr \<Rightarrow> pystr option"
  title_year :: "pystr \<Rightarrow> pystr option"
  url_path :: "pystr \<Rightarrow> pystr"
  pdf_unquote :: "pystr \<Rightarrow> pystr"
  path_exists :: "pystr \<Rightarrow> bool"
  mkdir_fails :: "pystr \<Rightarrow> bool"

text \<open>\<open>s.replace(old, new, 1)\<close> for a non-empty \<open>old\<close>.\<close>

fun replace_first :: "pystr \<Rightarrow> pystr \<Rightarrow> pystr \<Rightarrow> pystr" where
  "replace_first old new [] = []"
| "replace_first old new (c # cs) =
     (if prefix old (c # cs) then new @ drop (length old) (c # cs)
      else c # replace_first old new cs)"

text \<open>
  \<open>FilenameProcessor.extract_from_url\<close> (lines 238 to 258): the last part of the path,
  with \<open>.pdf\<close> added when it does not end so, sanitized with the default length 200.
\<close>

definition extract_from_url :: "downloads \<Rightarrow> pystr \<Rightarrow> pystr" where
  "extract_from_url d u =
     (let path = url_path d u;
          filename = rev (takeWhile (\<lambda>c. c \<noteq> 0x2F) (rev path));
          filename = (if \<not> suffix (U ''.pdf'') (ascii_lower filename)
                      then filename @ U ''.pdf'' else filename)
      in downloader_sanitize (pdf_unquote d) filename 200)"

datatype pdf_status = Downloaded | Exists | Download_failed

record pdf_record =
  pdf_title :: pystr
  year :: pystr
  pdf_url :: pystr
  local_path :: pystr
  pdf_status :: pdf_status

text \<open>The state of the downloader: the URLs given to \<open>page.goto\<close> and the files written.\<close>

record downloader =
  pdf_navigations :: "pystr list"
  written :: "(pystr \<times> nat list) list"

text \<open>
  \<open>download_pdf_with_browser\<close> (lines 566 to 660).  There is no loop: the PDF URL is
  opened once, and every outcome but a PDF ends in the record with status \<open>failed\<close>.
  \<open>None\<close> is the \<open>return None\<close> of the outer handler, here for a directory that cannot
  be made.  The arguments are the download directory and the input record (URL and
  page title).
\<close>

definition download_pdf_with_browser ::
  "downloads \<Rightarrow> pystr \<Rightarrow> input_record \<Rightarrow> downloader \<Rightarrow> pdf_record option \<times> downloader" where
  "download_pdf_with_browser d download_dir record sv =
     (let u = fst record;
          src_title = snd record;
          target = (if str_in (U ''dl.acm.org/doi/'') u \<and> \<not> str_in (U ''/doi/pdf/'') u
                    then replace_first (U ''/doi/'') (U ''/doi/pdf/'') u else u);
          filename = (case doi_name d target of
                        Some name \<Rightarrow> name @ U ''.pdf''
                      | None \<Rightarrow> extract_from_url d target);
          y = (case title_year d src_title of Some y \<Rightarrow> y | None \<Rightarrow> U ''2025'');
          save_dir = download_dir @ U ''/'' @ y;
          save_path = save_dir @ U ''/'' @ filename;
          shown_title = (if src_title = [] then U ''Untitled'' else src_title);
          failed = \<lparr>pdf_title = shown_title, year = y, pdf_url = target, local_path = [],
                    pdf_status = Download_failed\<rparr>
      in if path_exists d save_path
         then (Some (failed\<lparr>local_path := save_path, pdf_status := Exists\<rparr>), sv)
         else if mkdir_fails d save_dir then (None, sv)
         else (let sv' = sv\<lparr>pdf_navigations := pdf_navigations sv @ [target]\<rparr>
               in case pdf_goto d (length (pdf_navigations sv)) target of
                    Pdf_ok content_type body \<Rightarrow>
                      if str_in (U ''pdf'') content_type \<or> take 4 body = U ''%PDF''
                      then (Some (failed\<lparr>local_path := save_path, pdf_status := Downloaded\<rparr>),
                            sv'\<lparr>written := written sv' @ [(save_path, body)]\<rparr>)
                      else (Some failed, sv')
                  | Pdf_http_error code \<Rightarrow> (Some failed, sv')
                  | Pdf_no_response \<Rightarrow> (Some failed, sv')
                  | Pdf_exception msg \<Rightarrow> (Some failed, sv')))"

section \<open>Concurrent downloads: \<open>crawl_and_download_pdfs\<close>\<close>

text \<open>
  \<open>download_pdf.py\<close>, lines 147 to 157:
  \<^verbatim>\<open>
    semaphore = asyncio.Semaphore(max_concurrent)

    async def download_with_semaphore(pdf_url):
        async with semaphore:
            async with aiohttp.ClientSession() as session:
                return await download_file(pdf_url, ...)

    tasks = [download_with_semaphore(pdf_url) for pdf_url in absolute_pdf_links]
    results = await asyncio.gather(*tasks)
  \<close>
  There is one task for every link.  A task waits to enter \<open>async with semaphore\<close>,
  then downloads, then leaves and is finished.  The event loop interleaves the tasks at
  their \<open>await\<close>s, so a run is a sequence of steps, each taken by one task: entering,
  which the semaphore allows while its value is positive and which lowers the value, or
  leaving, which raises it.  \<open>asyncio.Semaphore\<close> refuses a negative initial value.
\<close>

datatype task = Waiting | Downloading | Finished

record pool =
  semaphore :: nat
  tasks :: "task list"


inductive step :: "pool \<Rightarrow> pool \<Rightarrow> bool" where
  enter: "i < length (tasks s) \<Longrightarrow> tasks s ! i = Waiting \<Longrightarrow> 0 < semaphore s \<Longrightarrow>
          step s (s\<lparr>semaphore := semaphore s - 1, tasks := (tasks s)[i := Downloading]\<rparr>)"
| leave: "i < length (tasks s) \<Longrightarrow> tasks s ! i = Downloading \<Longrightarrow>
          step s (s\<lparr>semaphore := semaphore s + 1, tasks := (tasks s)[i := Finished]\<rparr>)"



section \<open>Example inputs\<close>

text \<open>
  Concrete surroundings on which the definitions can be run.  The site
  \<open>https://papers.example/\<close> has an index page with two links and listing pages without
  links.  Its \<open>urljoin\<close> puts the host in front of a link, which is what \<open>urljoin\<close> does
  with a link that starts with one slash; its \<open>re_match\<close> and \<open>re_search\<close> read the
  pattern as plain text, which is what \<open>re\<close> does with a pattern without special
  characters: \<open>match\<close> looks for it at the start, \<open>search\<close> anywhere.
\<close>

definition example_base :: pystr where
  "example_base = U ''https://papers.example/''"

definition example_web :: web where
  "example_web =
     \<lparr>arun = (\<lambda>n u. if u = example_base then Crawl_success (U ''index'')
                     else Crawl_success (U ''listing'')),
      urljoin = (\<lambda>base link. U ''https://papers.example'' @ link),
      findall = (\<lambda>pattern page.
                   if page = U ''index''
                   then [U ''/paper_files/paper/2024/file/abc.pdf'', U ''/other/x.pdf'']
                   else []),
      re_match = (\<lambda>pattern s. prefix pattern s),
      list_of_set = remdups,
      re_search = (\<lambda>pattern s. str_in pattern s),
      href_links = (\<lambda>page. []),
      dois = (\<lambda>page. [])\<rparr>"

text \<open>
  Three levels: the first keeps the links under \<open>/paper_files/paper/\<close>, the other two
  have no filter.
\<close>

definition example_level :: "int \<Rightarrow> pystr \<Rightarrow> level_config" where
  "example_level k pattern =
     \<lparr>level = k, level_name = U ''Level'', extract_pattern = U ''/[a-z_0-9/]+[.]pdf'',
      filter_pattern = pattern, url_pattern = [], description = []\<rparr>"


definition empty_run :: run_state where
  "empty_run = \<lparr>fetched = [], all_results = Map.empty, jsonl = Map.empty\<rparr>"



text \<open>
  Browsers: one whose every response is 404, one that times out twice and then loads
  the page, one whose every attempt ends with a closed browser; two pages for the gate.
\<close>

definition challenge_page :: page_view where
  "challenge_page = (\<lambda>n. (U ''Just a moment...'', U ''<html>Verify you are human</html>''))"

definition secure_page :: page_view where
  "secure_page = (\<lambda>n. (U ''Example'', U ''checking if the connection is secure''))"

definition browser_404 :: browser where
  "browser_404 =
     \<lparr>page_goto = (\<lambda>n u. Http_error 404), page_view = secure_page, operator = Presses_enter\<rparr>"



definition example_record :: input_record where
  "example_record = (U ''https://papers.example/paper/1'', U ''Paper'')"

definition new_capturer :: capturer where
  "new_capturer =
     \<lparr>results = [], success_count = 0, failed_count = 0, output_file = [], navigations = []\<rparr>"

definition downloads_404 :: downloads where
  "downloads_404 =
     \<lparr>pdf_goto = (\<lambda>n u. Pdf_http_error 404), doi_name = (\<lambda>u. None), title_year = (\<lambda>t. None),
      url_path = (\<lambda>u. U ''/paper/1''), pdf_unquote = (\<lambda>s. s), path_exists = (\<lambda>p. False),
      mkdir_fails = (\<lambda>p. False)\<rparr>"

definition new_downloader :: downloader where
  "new_downloader = \<lparr>pdf_navigations = [], written = []\<rparr>"

section \<open>Properties of the file-name sanitizers\<close>

subsection \<open>String helpers\<close>







































subsection \<open>What \<open>sanitize\<close> guarantees\<close>




section \<open>Properties of the level chain\<close>

subsection \<open>Filtering the links of a page\<close>






subsection \<open>Making a link absolute\<close>

text \<open>
  Claim C8, at the failing input.  The runner tests \<open>link.startswith('http')\<close>, so a
  relative link whose name begins with these four letters, such as \<open>http-intro.html\<close>,
  is taken for an absolute URL and returned as it is, whatever the page and the base
  are; it is not resolved against the source page.  \<open>download_pdf.py\<close> tests
  \<open>http://\<close> and \<open>https://\<close> and hands the same link to \<open>urljoin\<close>.
\<close>

theorem full_url_http_prefix:
  "full_url w base_url src (U ''http-intro.html'') = U ''http-intro.html''
   \<and> absolute_pdf_link w src (U ''http-intro.html'') = urljoin w src (U ''http-intro.html'')"
  by (simp add: full_url_def absolute_pdf_link_def startswith_def U_def)

text \<open>The three rules of the claim hold for every other link.\<close>

lemma full_url_rules:
  "startswith link (U ''http://'') \<or> startswith link (U ''https://'') \<Longrightarrow>
     full_url w base_url src link = link"
  "startswith link (U ''/'') \<Longrightarrow> full_url w base_url src link = urljoin w base_url link"
  "\<not> startswith link (U ''http'') \<Longrightarrow> \<not> startswith link (U ''/'') \<Longrightarrow>
     full_url w base_url src link = urljoin w src link"
  by (auto simp: full_url_def startswith_def U_def prefix_def)

subsection \<open>The end of the chain\<close>

lemma run_levels_stop:
  "pre \<noteq> [] \<Longrightarrow> fst (run_levels w b pre urls st) = [] \<Longrightarrow>
   run_levels w b (pre @ rest) urls st = run_levels w b pre urls st"
proof (induction pre arbitrary: urls st)
  case Nil then show ?case by simp
next
  case (Cons lc pre)
  obtain nexts st' where p: "process_level w b lc urls st = (nexts, st')"
    by (cases "process_level w b lc urls st")
  show ?case
  proof (cases "nexts = []")
    case True with p show ?thesis by simp
  next
    case False
    show ?thesis
    proof (cases "pre = []")
      case True
      with Cons.prems p False show ?thesis by simp
    next
      case ne: False
      from Cons.prems p False have "fst (run_levels w b pre nexts st') = []" by simp
      from Cons.IH[OF ne this] p False show ?thesis by simp
    qed
  qed
qed

lemma process_url_log: "snd (process_url w lc b src (acc, log)) = log @ [(level lc, src)]"
  by (simp add: process_url_def Let_def split: arun_result.splits)

lemma process_urls_log:
  "snd (process_urls w lc b srcs (acc, log)) = log @ map (\<lambda>u. (level lc, u)) srcs"
proof (induction srcs arbitrary: acc log)
  case Nil then show ?case by simp
next
  case (Cons s srcs)
  obtain acc' log' where p: "process_url w lc b s (acc, log) = (acc', log')"
    by (cases "process_url w lc b s (acc, log)")
  with process_url_log[of w lc b s acc log] have "log' = log @ [(level lc, s)]" by simp
  with Cons.IH[of acc' log'] p show ?case by simp
qed

lemma process_level_log:
  "fetched (snd (process_level w b lc urls st)) = fetched st @ map (\<lambda>u. (level lc, u)) urls"
  using process_urls_log[of w lc b urls _ "fetched st"]
  by (simp add: process_level_def Let_def split: prod.splits) (metis snd_conv)

lemma run_levels_log:
  "\<exists>new. fetched (snd (run_levels w b levels urls st)) = fetched st @ new
         \<and> fst ` set new \<subseteq> level ` set levels"
proof (induction levels arbitrary: urls st)
  case Nil then show ?case by simp
next
  case (Cons lc levels)
  obtain nexts st' where p: "process_level w b lc urls st = (nexts, st')"
    by (cases "process_level w b lc urls st")
  with process_level_log[of w b lc urls st]
  have l: "fetched st' = fetched st @ map (\<lambda>u. (level lc, u)) urls" by simp
  show ?case
  proof (cases "nexts = []")
    case True
    with p l show ?thesis by (auto intro!: exI[of _ "map (\<lambda>u. (level lc, u)) urls"])
  next
    case False
    from Cons.IH[of nexts st'] obtain new where
      n: "fetched (snd (run_levels w b levels nexts st')) = fetched st' @ new"
         "fst ` set new \<subseteq> level ` set levels" by blast
    with p l False show ?thesis
      by (auto intro!: exI[of _ "map (\<lambda>u. (level lc, u)) urls @ new"])
  qed
qed

text \<open>
  Claim C3.  Let \<open>pre\<close> be the levels of a chain up to and including level \<open>k\<close>, and
  \<open>rest\<close> the levels after it.  If the run of \<open>pre\<close> ends with an empty survivor set, the
  run of the whole chain is the run of \<open>pre\<close>: it ends in the same state, so no level of
  \<open>rest\<close> fetches a page, writes a file or adds to \<open>all_results\<close>, and every page fetched
  was fetched by a level of \<open>pre\<close>.  Past the last declared level nothing runs, even
  with URLs left.
\<close>

theorem empty_survivors_end_chain:
  assumes "pre \<noteq> []" and "fst (run_levels w base_url pre urls st) = []"
  shows "run_levels w base_url (pre @ rest) urls st = run_levels w base_url pre urls st
       \<and> fst ` set (drop (length (fetched st))
                      (fetched (snd (run_levels w base_url (pre @ rest) urls st))))
           \<subseteq> level ` set pre
       \<and> run_levels w base_url [] urls st = (urls, st)"
proof -
  have eq: "run_levels w base_url (pre @ rest) urls st = run_levels w base_url pre urls st"
    using assms by (rule run_levels_stop)
  from run_levels_log[of w base_url pre urls st] obtain new where
    "fetched (snd (run_levels w base_url pre urls st)) = fetched st @ new"
    "fst ` set new \<subseteq> level ` set pre" by blast
  with eq show ?thesis by simp
qed

text \<open>
  A chain of three levels on the example site.  Level 1 finds one paper link, the page
  behind it has no links, so level 2 ends with no survivors: the pages fetched are the
  base at level 1 and the paper at level 2, and level 3 fetches nothing.
\<close>

theorem empty_survivors_end_chain_witness:
  "[example_level 1 (U ''/paper_files/paper/''), example_level 2 []] \<noteq> []
   \<and> fst (run_levels example_web example_base
            [example_level 1 (U ''/paper_files/paper/''), example_level 2 []]
            [example_base] empty_run) = []
   \<and> run_levels example_web example_base
        ([example_level 1 (U ''/paper_files/paper/''), example_level 2 []] @ [example_level 3 []])
        [example_base] empty_run
       = run_levels example_web example_base
           [example_level 1 (U ''/paper_files/paper/''), example_level 2 []]
           [example_base] empty_run
   \<and> fetched (snd (run_levels example_web example_base
        ([example_level 1 (U ''/paper_files/paper/''), example_level 2 []] @ [example_level 3 []])
        [example_base] empty_run))
       = [(1, example_base),
          (2, U ''https://papers.example/paper_files/paper/2024/file/abc.pdf'')]"
proof -
  let ?pre = "[example_level 1 (U ''/paper_files/paper/''), example_level 2 []]"
  have ne: "?pre \<noteq> []" by simp
  have run: "fst (run_levels example_web example_base ?pre [example_base] empty_run) = []
     \<and> fetched (snd (run_levels example_web example_base ?pre [example_base] empty_run))
       = [(1, example_base),
          (2, U ''https://papers.example/paper_files/paper/2024/file/abc.pdf'')]"
    by (simp add: process_level_def process_url_def example_web_def example_level_def
        example_base_def U_def Let_def empty_run_def full_url_def startswith_def)
  then have e: "fst (run_levels example_web example_base ?pre [example_base] empty_run) = []"
    by blast
  note t = empty_survivors_end_chain [OF ne e, of "[example_level 3 []]"]
  from t run ne show ?thesis by simp
qed

section \<open>Properties of the single-page crawl\<close>









section \<open>Properties of the challenge gate\<close>

lemma upt_3: "[0..<3] = [0, 1, 2]"
  by (simp add: upt_rec)

lemma capturer_first_round:
  "capturer_handle_cloudflare page who =
     (if \<not> capturer_is_cloudflare (fst (page 0)) (snd (page 0)) then (Returned True, [Inspect 0])
      else capturer_rounds page who [1, 2] [Inspect 0, Sleep 5])"
  by (cases "page 0") (simp add: capturer_handle_cloudflare_def upt_3)

lemma downloader_first_round:
  "downloader_handle_cloudflare page who 3 =
     (if \<not> downloader_is_cloudflare (fst (page 0)) (snd (page 0)) then (Returned True, [Inspect 0])
      else downloader_rounds page who [1, 2] [Inspect 0, Auto_clearance 0, Sleep 2])"
  by (cases "page 0") (simp add: downloader_handle_cloudflare_def upt_3)

lemma capturer_rounds_trace:
  "\<exists>more. snd (capturer_rounds page who attempts trace) = trace @ more \<and> more \<noteq> []"
proof (induction attempts arbitrary: trace)
  case Nil
  then show ?case by (simp add: manual_verification_def split: operator.splits)
next
  case (Cons a attempts)
  obtain t c where p: "page a = (t, c)" by (cases "page a")
  show ?case
  proof (cases "capturer_is_cloudflare t c")
    case False with p show ?thesis by simp
  next
    case True
    from Cons.IH[of "trace @ [Inspect a, Sleep 5]"] obtain more where
      "snd (capturer_rounds page who attempts (trace @ [Inspect a, Sleep 5]))
         = (trace @ [Inspect a, Sleep 5]) @ more" by blast
    with True p show ?thesis by simp
  qed
qed

lemma downloader_rounds_trace:
  "\<exists>more. snd (downloader_rounds page who attempts trace) = trace @ more \<and> more \<noteq> []"
proof (induction attempts arbitrary: trace)
  case Nil
  then show ?case by (simp add: manual_verification_def split: operator.splits)
next
  case (Cons a attempts)
  obtain t c where p: "page a = (t, c)" by (cases "page a")
  show ?case
  proof (cases "downloader_is_cloudflare t c")
    case False with p show ?thesis by simp
  next
    case True
    from Cons.IH[of "trace @ [Inspect a, Auto_clearance a, Sleep 2]"] obtain more where
      "snd (downloader_rounds page who attempts (trace @ [Inspect a, Auto_clearance a, Sleep 2]))
         = (trace @ [Inspect a, Auto_clearance a, Sleep 2]) @ more" by blast
    with True p show ?thesis by simp
  qed
qed

lemma js_wait_0:
  "js_wait page 0 = 0 \<longleftrightarrow> \<not> js_verifying (fst (page 0)) (snd (page 0))"
proof (cases "js_verifying (fst (page 0)) (snd (page 0))")
  case False
  then show ?thesis by (cases "page 0") simp
next
  case True
  have "n \<le> js_wait page n" for n
  proof (induction page n rule: js_wait.induct)
    case (1 page waitCount)
    show ?case
    proof (cases "waitCount < 30")
      case False then show ?thesis by simp
    next
      case lt: True
      obtain t c where p: "page waitCount = (t, c)" by (cases "page waitCount")
      show ?thesis
      proof (cases "js_verifying t c")
        case True
        from "1.IH"[OF lt p[symmetric] True] have "Suc waitCount \<le> js_wait page (Suc waitCount)" .
        with lt p True show ?thesis by (subst js_wait.simps) simp
      next
        case False
        with lt p show ?thesis by (subst js_wait.simps) simp
      qed
    qed
  qed
  from this[of "Suc 0"] have "js_wait page (Suc 0) \<noteq> 0" by simp
  with True show ?thesis by (cases "page 0") simp
qed

text \<open>
  Claim C5, as the code has it.  The first inspection of a page ends the gate with
  \<open>True\<close>, and nothing else done, exactly when the page shows none of the markers of
  the code: two titles and two phrases of the content in \<open>page_capturer.py\<close>, one phrase
  more in \<open>downloader_pdf.py\<close>.  A page with a marker is taken for a challenge page: the
  gate goes on to wait or to click.  The script of \<open>crawler_service.py\<close> waits at least
  one second exactly when the title or the body text shows one of its six markers, among
  them the phrase \<open>Checking if the site connection is secure\<close>.
\<close>

theorem first_inspection_markers:
  "(capturer_handle_cloudflare page who = (Returned True, [Inspect 0])
      \<longleftrightarrow> \<not> (str_in qing_shao_hou (fst (page 0)) \<or> str_in (U ''Just a moment'') (fst (page 0)) \<or>
             str_in (U ''Cloudflare'') (snd (page 0)) \<or>
             str_in (U ''Verify you are human'') (snd (page 0))))
   \<and> (downloader_handle_cloudflare page who 3 = (Returned True, [Inspect 0])
      \<longleftrightarrow> \<not> (str_in qing_shao_hou (fst (page 0)) \<or> str_in (U ''Just a moment'') (fst (page 0)) \<or>
             str_in (U ''Cloudflare'') (snd (page 0)) \<or>
             str_in queren_nin_shi_zhenren (snd (page 0)) \<or>
             str_in (U ''Verify you are human'') (snd (page 0))))
   \<and> (js_wait page 0 = 0
      \<longleftrightarrow> \<not> (str_in qing_shao_hou (fst (page 0)) \<or> str_in (U ''Just a moment'') (fst (page 0)) \<or>
             str_in (U ''Checking'') (fst (page 0)) \<or> str_in (U ''Verify'') (fst (page 0)) \<or>
             str_in (U ''Checking if the site connection is secure'') (snd (page 0)) \<or>
             str_in zhengzai_yanzheng (snd (page 0))))"
proof -
  have c: "capturer_handle_cloudflare page who = (Returned True, [Inspect 0])
      \<longleftrightarrow> \<not> capturer_is_cloudflare (fst (page 0)) (snd (page 0))"
    using capturer_rounds_trace[of page who "[1, 2]" "[Inspect 0, Sleep 5]"]
    by (auto simp: capturer_first_round)
  have d: "downloader_handle_cloudflare page who 3 = (Returned True, [Inspect 0])
      \<longleftrightarrow> \<not> downloader_is_cloudflare (fst (page 0)) (snd (page 0))"
    using downloader_rounds_trace[of page who "[1, 2]" "[Inspect 0, Auto_clearance 0, Sleep 2]"]
    by (auto simp: downloader_first_round)
  show ?thesis
    unfolding c d js_wait_0
    by (simp add: capturer_is_cloudflare_def downloader_is_cloudflare_def js_verifying_def)
qed

text \<open>
  A page titled \<open>Just a moment...\<close> is not passed at the first inspection, by either
  gate or by the script.
\<close>

theorem first_inspection_markers_witness:
  "str_in (U ''Just a moment'') (fst (challenge_page 0))
   \<and> capturer_handle_cloudflare challenge_page Presses_enter \<noteq> (Returned True, [Inspect 0])
   \<and> downloader_handle_cloudflare challenge_page Presses_enter 3 \<noteq> (Returned True, [Inspect 0])
   \<and> js_wait challenge_page 0 \<noteq> 0"
proof -
  have m: "str_in (U ''Just a moment'') (fst (challenge_page 0))"
    by (simp add: challenge_page_def U_def)
  from first_inspection_markers[of challenge_page Presses_enter] m show ?thesis by blast
qed

text \<open>
  Claim C5 as stated fails: the phrase \<open>checking if the connection is secure\<close> is not
  among the markers.  A page with the title \<open>Example\<close> and that phrase as its content
  is passed at the first inspection by both gates, and the script does not wait.
\<close>

theorem secure_phrase_counterexample:
  "str_in (U ''checking if the connection is secure'') (snd (secure_page 0))
   \<and> capturer_handle_cloudflare secure_page Never_answers = (Returned True, [Inspect 0])
   \<and> downloader_handle_cloudflare secure_page Never_answers 3 = (Returned True, [Inspect 0])
   \<and> js_wait secure_page 0 = 0"
  by (simp add: capturer_handle_cloudflare_def downloader_handle_cloudflare_def upt_3
      capturer_is_cloudflare_def downloader_is_cloudflare_def js_verifying_def U_def
      secure_page_def qing_shao_hou_def queren_nin_shi_zhenren_def zhengzai_yanzheng_def)



section \<open>Properties of the page capturer and of the PDF downloader\<close>

subsection \<open>One call of \<open>capture_page\<close>\<close>












subsection \<open>Responses that are not \<open>ok\<close>\<close>

lemma capture_attempts_http:
  assumes "\<forall>n. page_goto b n (capture_url r) = Http_error code"
  shows "navigations (snd (capture_attempts b rs r sv)) = navigations sv @ replicate (length rs) (capture_url r)
       \<and> status (fst (capture_attempts b rs r sv)) = Failed
       \<and> error (fst (capture_attempts b rs r sv)) = (if rs = [] then error r else U ''HTTP '' @ py_str code)
       \<and> browser_crashed (fst (capture_attempts b rs r sv)) = browser_crashed r
       \<and> failed_count (snd (capture_attempts b rs r sv)) = failed_count sv + 1
       \<and> success_count (snd (capture_attempts b rs r sv)) = success_count sv"
  using assms
proof (induction rs arbitrary: r sv)
  case Nil then show ?case by simp
next
  case (Cons retry retries)
  let ?r' = "r\<lparr>error := U ''HTTP '' @ py_str code\<rparr>"
  let ?sv' = "sv\<lparr>navigations := navigations sv @ [capture_url r]\<rparr>"
  have step: "capture_attempts b (retry # retries) r sv = capture_attempts b retries ?r' ?sv'"
    using Cons.prems by simp
  have "\<forall>n. page_goto b n (capture_url ?r') = Http_error code" using Cons.prems by simp
  from Cons.IH[OF this, of ?sv'] show ?case
    unfolding step by (simp add: replicate_append_same)
qed

lemma py_str_404: "py_str 404 = U ''404''"
  by (simp add: py_str.simps U_def)

lemma capture_page_http:
  assumes "\<forall>n. page_goto b n (fst record) = Http_error code" and "0 \<le> max_retries"
  shows "navigations (snd (capture_page b max_retries record sv))
           = navigations sv @ replicate (nat (max_retries + 1)) (fst record)
       \<and> status (fst (capture_page b max_retries record sv)) = Failed
       \<and> error (fst (capture_page b max_retries record sv)) = U ''HTTP '' @ py_str code
       \<and> failed_count (snd (capture_page b max_retries record sv)) = failed_count sv + 1"
proof -
  let ?r = "\<lparr>capture_url = fst record, source_title = snd record, status = Pending,
        screenshot_path = [], html_path = [], page_title = [], error = [],
        browser_crashed = False\<rparr>"
  have "\<forall>n. page_goto b n (capture_url ?r) = Http_error code" using assms(1) by simp
  from capture_attempts_http[OF this, of "[0..<nat (max_retries + 1)]" sv] assms(2)
  show ?thesis by (simp add: capture_page_def)
qed

lemma download_http:
  assumes "\<forall>n u. pdf_goto d n u = Pdf_http_error code"
      and "\<forall>p. \<not> path_exists d p" and "\<forall>p. \<not> mkdir_fails d p"
  shows "\<exists>r. download_pdf_with_browser d dir record sv = (Some r, sv\<lparr>pdf_navigations := pdf_navigations sv @ [pdf_url r]\<rparr>)
            \<and> pdf_status r = Download_failed"
  using assms by (simp add: download_pdf_with_browser_def Let_def)


text \<open>
  Claim C2, as the code has it.  Take a URL whose every response is an HTTP error with
  the same status, a client error such as 404 among them.  In the page capturer
  (\<open>max_retries \<ge> 0\<close>) the retry loop goes on after such a response: the URL is opened
  \<open>max_retries + 1\<close> times, and only then is the one result recorded as failed, with the
  error \<open>HTTP\<close> and the status.  In the PDF downloader, which has no retry loop, a URL
  that has to be downloaded is opened once and recorded as failed.
\<close>

theorem http_error_attempts:
  assumes "\<forall>n. page_goto b n (fst record) = Http_error code" and "0 \<le> max_retries"
      and "\<forall>n u. pdf_goto d n u = Pdf_http_error code"
      and "\<forall>p. \<not> path_exists d p" and "\<forall>p. \<not> mkdir_fails d p"
  shows "navigations (snd (capture_page b max_retries record sv))
           = navigations sv @ replicate (nat (max_retries + 1)) (fst record)
       \<and> status (fst (capture_page b max_retries record sv)) = Failed
       \<and> error (fst (capture_page b max_retries record sv)) = U ''HTTP '' @ py_str code
       \<and> failed_count (snd (capture_page b max_retries record sv)) = failed_count sv + 1
       \<and> (\<exists>r. download_pdf_with_browser d download_dir record dl
                  = (Some r, dl\<lparr>pdf_navigations := pdf_navigations dl @ [pdf_url r]\<rparr>)
              \<and> pdf_status r = Download_failed)"
  using capture_page_http[OF assms(1,2), of sv] download_http[OF assms(3,4,5), of download_dir "record" dl]
  by blast

text \<open>
  With \<open>max_retries = 2\<close> and a site that answers 404, the capturer opens the page three
  times and the downloader once.
\<close>

theorem http_error_attempts_witness:
  "(\<forall>n. page_goto browser_404 n (fst example_record) = Http_error 404) \<and> (0::int) \<le> 2
   \<and> (\<forall>n u. pdf_goto downloads_404 n u = Pdf_http_error 404)
   \<and> (\<forall>p. \<not> path_exists downloads_404 p) \<and> (\<forall>p. \<not> mkdir_fails downloads_404 p)
   \<and> navigations (snd (capture_page browser_404 2 example_record new_capturer))
       = [fst example_record, fst example_record, fst example_record]
   \<and> status (fst (capture_page browser_404 2 example_record new_capturer)) = Failed
   \<and> error (fst (capture_page browser_404 2 example_record new_capturer)) = U ''HTTP 404''
   \<and> pdf_navigations (snd (download_pdf_with_browser downloads_404 (U ''downloads'')
                              example_record new_downloader))
       = [fst example_record]"
proof -
  have h1: "\<forall>n. page_goto browser_404 n (fst example_record) = Http_error 404"
    by (simp add: browser_404_def)
  have h2: "(0::int) \<le> 2" by simp
  have h3: "\<forall>n u. pdf_goto downloads_404 n u = Pdf_http_error 404"
    by (simp add: downloads_404_def)
  have h4: "\<forall>p. \<not> path_exists downloads_404 p" by (simp add: downloads_404_def)
  have h5: "\<forall>p. \<not> mkdir_fails downloads_404 p" by (simp add: downloads_404_def)
  have r: "replicate (nat (2 + 1)) (fst example_record)
           = [fst example_record, fst example_record, fst example_record]"
    by (simp add: numeral_3_eq_3)
  have n: "navigations new_capturer = []" "pdf_navigations new_downloader = []"
    by (simp_all add: new_capturer_def new_downloader_def)
  have u: "pdf_url (the (fst (download_pdf_with_browser downloads_404 (U ''downloads'')
                               example_record new_downloader))) = fst example_record"
    by (simp add: download_pdf_with_browser_def downloads_404_def example_record_def Let_def U_def)
  have e: "U ''HTTP '' @ py_str 404 = U ''HTTP 404''"
    by (simp add: py_str_404 U_def)
  note t = http_error_attempts [OF h1 h2 h3 h4 h5, of new_capturer "U ''downloads''" new_downloader]
  from t obtain r where
    d: "download_pdf_with_browser downloads_404 (U ''downloads'') example_record new_downloader
          = (Some r, new_downloader\<lparr>pdf_navigations := pdf_navigations new_downloader @ [pdf_url r]\<rparr>)"
    by blast
  with u have "pdf_navigations (snd (download_pdf_with_browser downloads_404 (U ''downloads'')
                              example_record new_downloader)) = [fst example_record]"
    by (simp add: n)
  with t h1 h2 h3 h4 h5 show ?thesis unfolding r e n by simp
qed

text \<open>
  Claim C2 as stated fails in the page capturer: the page that answers 404 is opened
  again after the first attempt, three times in all with \<open>max_retries = 2\<close>.
\<close>

theorem http_error_counterexample:
  "page_goto browser_404 0 (fst example_record) = Http_error 404
   \<and> navigations (snd (capture_page browser_404 2 example_record new_capturer))
       = [fst example_record, fst example_record, fst example_record]
   \<and> length (navigations (snd (capture_page browser_404 2 example_record new_capturer))) = 3"
  by (simp add: capture_page_def browser_404_def new_capturer_def upt_rec)

subsection \<open>The loop over the records\<close>











section \<open>Properties of the concurrent downloads\<close>







end
